theory Spec2Isabelle
  imports Complex_Main
begin

section \<open>Python values and the built-ins the service calls\<close>

text \<open>
  The service receives its input as parsed JSON, a dynamically typed Python value:
  \<open>None\<close>, a bool, an int, a float, a str, a list or a dict with string keys. The type
  \<open>'f\<close> stands for Python's binary64 floats, whose arithmetic the service never uses:
  a price is converted once and carried around. A dict is an association list read
  with \<open>map_of\<close>, so the first entry of a key is the one the dict holds.
\<close>

datatype 'f pyval =
    PNone
  | PBool bool
  | PInt int
  | PFloat 'f
  | PStr string
  | PList "'f pyval list"
  | PDict "(string \<times> 'f pyval) list"

text \<open>
  Python's own functions are no part of the repository. The four the service calls are
  parameters of the model: \<open>float\<close> on an int (\<open>None\<close>: the int is too large,
  OverflowError) and on a str (\<open>None\<close>: the text is no number, ValueError), and
  \<open>str.upper\<close> and \<open>str.lower\<close>.
\<close>

record 'f builtins =
  float_of_int :: "int \<Rightarrow> 'f option"
  float_of_str :: "string \<Rightarrow> 'f option"
  str_upper :: "string \<Rightarrow> string"
  str_lower :: "string \<Rightarrow> string"

text \<open>
  Exceptions are values. \<open>KeyError\<close> carries the missing key and \<open>ValueError\<close> the
  text \<open>float\<close> rejected; \<open>DataValidationError\<close> carries its message, which
  \<open>deserialize\<close> builds as \<open>f"Missing key: {error}"\<close> or \<open>f"Invalid value: {error}"\<close>.
  \<open>HTTPException\<close> is what \<open>abort(code, description)\<close> raises.
\<close>

datatype message =
    Missing_key string
  | Invalid_value string

datatype description =
    Content_type_must_be string
  | Product_not_found int
  | Bad_json

datatype exn =
    KeyError string
  | ValueError string
  | TypeError
  | AttributeError
  | OverflowError
  | SQLAlchemyError
  | DataValidationError message
  | HTTPException nat description

text \<open>\<open>data[key]\<close>: only a dict can be subscripted by a str.\<close>

fun subscript :: "'f pyval \<Rightarrow> string \<Rightarrow> exn + 'f pyval" where
  "subscript (PDict d) k = (case map_of d k of None \<Rightarrow> Inl (KeyError k) | Some v \<Rightarrow> Inr v)"
| "subscript _ k = Inl TypeError"

text \<open>\<open>data.get(key, default)\<close>: only a dict has the method.\<close>

fun dict_get :: "'f pyval \<Rightarrow> string \<Rightarrow> 'f pyval \<Rightarrow> exn + 'f pyval" where
  "dict_get (PDict d) k dflt = (case map_of d k of None \<Rightarrow> Inr dflt | Some v \<Rightarrow> Inr v)"
| "dict_get _ k dflt = Inl AttributeError"

text \<open>\<open>value.upper()\<close>: only a str has the method.\<close>

fun upper :: "'f builtins \<Rightarrow> 'f pyval \<Rightarrow> exn + string" where
  "upper bi (PStr s) = Inr (str_upper bi s)"
| "upper bi _ = Inl AttributeError"

text \<open>
  \<open>float(value)\<close>: a float is returned as it is, an int or a bool (an int in Python)
  is converted, a str is parsed, and every other value is a TypeError.
\<close>

fun py_float :: "'f builtins \<Rightarrow> 'f pyval \<Rightarrow> exn + 'f" where
  "py_float bi (PFloat x) = Inr x"
| "py_float bi (PInt i) =
     (case float_of_int bi i of None \<Rightarrow> Inl OverflowError | Some x \<Rightarrow> Inr x)"
| "py_float bi (PBool b) =
     (case float_of_int bi (if b then 1 else 0) of None \<Rightarrow> Inl OverflowError | Some x \<Rightarrow> Inr x)"
| "py_float bi (PStr s) =
     (case float_of_str bi s of None \<Rightarrow> Inl (ValueError s) | Some x \<Rightarrow> Inr x)"
| "py_float bi _ = Inl TypeError"

section \<open>The model: \<open>service/models.py\<close>\<close>

datatype Category = ELECTRONICS | CLOTHING | FOOD | BOOKS | OTHER

text \<open>\<open>member.value\<close>, the label a category is serialized as.\<close>

fun Category_value :: "Category \<Rightarrow> string" where
  "Category_value ELECTRONICS = ''Electronics''"
| "Category_value CLOTHING = ''Clothing''"
| "Category_value FOOD = ''Food''"
| "Category_value BOOKS = ''Books''"
| "Category_value OTHER = ''Other''"

text \<open>\<open>Category[name]\<close>, the lookup of a member by its name; a KeyError on any other text.\<close>

definition Category_getitem :: "string \<Rightarrow> exn + Category" where
  "Category_getitem n =
     (if n = ''ELECTRONICS'' then Inr ELECTRONICS
      else if n = ''CLOTHING'' then Inr CLOTHING
      else if n = ''FOOD'' then Inr FOOD
      else if n = ''BOOKS'' then Inr BOOKS
      else if n = ''OTHER'' then Inr OTHER
      else Inl (KeyError n))"

text \<open>
  A \<open>Product\<close> object. Attribute assignment checks no type, so \<open>name\<close>,
  \<open>description\<close> and \<open>available\<close> hold whatever value the input gave; \<open>category\<close>
  holds a member of the enumeration and \<open>price\<close> a float, or nothing yet. The key
  \<open>id\<close> is written \<open>id'\<close> here.
\<close>

record 'f product =
  id' :: "int option"
  name :: "'f pyval"
  description :: "'f pyval"
  category :: "Category option"
  available :: "'f pyval"
  price :: "'f option"

text \<open>\<open>Product()\<close>: every attribute is \<open>None\<close>.\<close>

definition Product :: "'f product" where
  "Product = \<lparr>id' = None, name = PNone, description = PNone, category = None,
              available = PNone, price = None\<rparr>"

text \<open>\<open>serialize\<close>. \<open>self.category.value\<close> is an AttributeError while the category is unset.\<close>

definition serialize :: "'f product \<Rightarrow> exn + 'f pyval" where
  "serialize self =
     (case category self of
        None \<Rightarrow> Inl AttributeError
      | Some c \<Rightarrow>
          Inr (PDict
            [(''id'', case id' self of None \<Rightarrow> PNone | Some i \<Rightarrow> PInt i),
             (''name'', name self),
             (''description'', description self),
             (''category'', PStr (Category_value c)),
             (''available'', available self),
             (''price'', case price self of None \<Rightarrow> PNone | Some x \<Rightarrow> PFloat x)]))"

text \<open>The right-hand sides \<open>Category[data["category"].upper()]\<close> and
  \<open>float(data["price"])\<close>, evaluated inside out.\<close>

definition data_category :: "'f builtins \<Rightarrow> 'f pyval \<Rightarrow> exn + Category" where
  "data_category bi data =
     (case subscript data ''category'' of
        Inl e \<Rightarrow> Inl e
      | Inr cv \<Rightarrow> (case upper bi cv of Inl e \<Rightarrow> Inl e | Inr u \<Rightarrow> Category_getitem u))"

definition data_price :: "'f builtins \<Rightarrow> 'f pyval \<Rightarrow> exn + 'f" where
  "data_price bi data =
     (case subscript data ''price'' of Inl e \<Rightarrow> Inl e | Inr pv \<Rightarrow> py_float bi pv)"

text \<open>
  The body of the \<open>try\<close> in \<open>deserialize\<close>, statement by statement. The result is the
  object as the statements executed so far have left it, with the exception that
  stopped them, if any.
\<close>

definition deserialize_try :: "'f builtins \<Rightarrow> 'f product \<Rightarrow> 'f pyval \<Rightarrow> 'f product \<times> exn option" where
  "deserialize_try bi self data =
     (case subscript data ''name'' of
        Inl e \<Rightarrow> (self, Some e)
      | Inr n \<Rightarrow>
     let self = self\<lparr>name := n\<rparr> in
     (case dict_get data ''description'' (PStr []) of
        Inl e \<Rightarrow> (self, Some e)
      | Inr d \<Rightarrow>
     let self = self\<lparr>description := d\<rparr> in
     (case data_category bi data of
        Inl e \<Rightarrow> (self, Some e)
      | Inr c \<Rightarrow>
     let self = self\<lparr>category := Some c\<rparr> in
     (case dict_get data ''available'' (PBool True) of
        Inl e \<Rightarrow> (self, Some e)
      | Inr a \<Rightarrow>
     let self = self\<lparr>available := a\<rparr> in
     (case data_price bi data of
        Inl e \<Rightarrow> (self, Some e)
      | Inr x \<Rightarrow> (self\<lparr>price := Some x\<rparr>, None))))))"

text \<open>
  The two \<open>except\<close> clauses: a KeyError and a ValueError are raised again as a
  DataValidationError; every other exception leaves \<open>deserialize\<close> as it is.
\<close>

fun deserialize_except :: "exn \<Rightarrow> exn" where
  "deserialize_except (KeyError k) = DataValidationError (Missing_key k)"
| "deserialize_except (ValueError s) = DataValidationError (Invalid_value s)"
| "deserialize_except e = e"

definition deserialize :: "'f builtins \<Rightarrow> 'f product \<Rightarrow> 'f pyval \<Rightarrow> 'f product \<times> exn option" where
  "deserialize bi self data =
     (case deserialize_try bi self data of
        (self', None) \<Rightarrow> (self', None)
      | (self', Some e) \<Rightarrow> (self', Some (deserialize_except e)))"

section \<open>The store\<close>

text \<open>
  The table \<open>products\<close> behind \<open>db.session\<close>: its rows, in insertion order, the key
  the engine gives to the next row inserted without one, and the engine. The engine is
  no part of the repository, and engines differ in what they do with a value that is
  not of its column's type. That is a parameter: \<open>as_string n v\<close> is the text a
  \<open>String(n)\<close> column holds once the value \<open>v\<close> (not NULL) is written to it, and
  \<open>as_boolean v\<close> the flag a \<open>Boolean\<close> column holds, each \<open>None\<close> when the statement
  is refused; \<open>keys_skipped p\<close> is the number of keys a refused INSERT of \<open>p\<close> uses up
  (a sequence is not rolled back). What the column declarations of \<open>Product\<close> say is
  modelled as it is: the primary key \<open>id\<close>, the types \<open>String(255)\<close>, \<open>String(1024)\<close>
  and \<open>Boolean\<close>, \<open>nullable=False\<close> on \<open>name\<close>, \<open>category\<close> and \<open>price\<close>, and
  \<open>default=True\<close> on \<open>available\<close>. Every refusal is an SQLAlchemyError.
\<close>

record 'f engine =
  as_string :: "nat \<Rightarrow> 'f pyval \<Rightarrow> string option"
  as_boolean :: "'f pyval \<Rightarrow> bool option"
  keys_skipped :: "'f product \<Rightarrow> nat"

record 'f store =
  rows :: "'f product list"
  next_id :: int
  engine :: "'f engine"

definition not_null :: "'f product \<Rightarrow> bool" where
  "not_null p = (name p \<noteq> PNone \<and> category p \<noteq> None \<and> price p \<noteq> None)"

definition ids :: "'f store \<Rightarrow> int option list" where
  "ids st = map id' (rows st)"

text \<open>\<open>Product.query.get(product_id)\<close> and \<open>Product.find\<close>: the row with that key, if any.\<close>

definition query_get :: "'f store \<Rightarrow> int \<Rightarrow> 'f product option" where
  "query_get st product_id = find (\<lambda>p. id' p = Some product_id) (rows st)"

text \<open>What a \<open>String(n)\<close> and a \<open>Boolean\<close> column hold once a value is written to them;
  \<open>None\<close> is written as NULL.\<close>

definition String_column :: "'f engine \<Rightarrow> nat \<Rightarrow> 'f pyval \<Rightarrow> exn + 'f pyval" where
  "String_column eng n v =
     (if v = PNone then Inr PNone
      else case as_string eng n v of None \<Rightarrow> Inl SQLAlchemyError | Some s \<Rightarrow> Inr (PStr s))"

definition Boolean_column :: "'f engine \<Rightarrow> 'f pyval \<Rightarrow> exn + 'f pyval" where
  "Boolean_column eng v =
     (if v = PNone then Inr PNone
      else case as_boolean eng v of None \<Rightarrow> Inl SQLAlchemyError | Some b \<Rightarrow> Inr (PBool b))"

text \<open>
  The row an INSERT of an object writes: each attribute as its column holds it, with
  the column's default where \<open>available\<close> is \<open>None\<close>; a NULL in a \<open>nullable=False\<close>
  column is refused.
\<close>

definition insert_values :: "'f engine \<Rightarrow> 'f product \<Rightarrow> exn + 'f product" where
  "insert_values eng p =
     (case String_column eng 255 (name p) of
        Inl e \<Rightarrow> Inl e
      | Inr n \<Rightarrow>
     (case String_column eng 1024 (description p) of
        Inl e \<Rightarrow> Inl e
      | Inr d \<Rightarrow>
     (case Boolean_column eng (if available p = PNone then PBool True else available p) of
        Inl e \<Rightarrow> Inl e
      | Inr a \<Rightarrow>
     let row = p\<lparr>name := n, description := d, available := a\<rparr> in
     if not_null row then Inr row else Inl SQLAlchemyError)))"

text \<open>
  \<open>db.session.add(product); db.session.commit()\<close>: an INSERT. An object without a key
  receives the next one; a key already in the table is refused. A refused INSERT stores
  nothing. After the commit the object is read back from the table, so the result is
  the row.
\<close>

definition session_add_commit ::
  "'f store \<Rightarrow> 'f product \<Rightarrow> (exn + 'f product) \<times> 'f store" where
  "session_add_commit st p =
     (let refused = st\<lparr>next_id := next_id st + int (keys_skipped (engine st) p)\<rparr> in
      case insert_values (engine st) p of
        Inl e \<Rightarrow> (Inl e, refused)
      | Inr row \<Rightarrow>
          (case id' row of
             None \<Rightarrow>
               if Some (next_id st) \<in> set (ids st) then (Inl SQLAlchemyError, refused)
               else (let row = row\<lparr>id' := Some (next_id st)\<rparr>
                     in (Inr row, st\<lparr>rows := rows st @ [row], next_id := next_id st + 1\<rparr>))
           | Some i \<Rightarrow>
               if Some i \<in> set (ids st) then (Inl SQLAlchemyError, refused)
               else (Inr row, st\<lparr>rows := rows st @ [row]\<rparr>)))"

text \<open>
  \<open>db.session.commit()\<close> after \<open>deserialize\<close> assigned the attributes of a stored
  object: an UPDATE of the row with the object's key. The session compares each
  attribute with the value it loaded (\<open>loaded\<close>) and writes the ones that changed; the
  column's default plays no part in an UPDATE. A refused UPDATE changes nothing. The
  values are compared here as they are, where Python's \<open>==\<close> also takes \<open>1\<close> for
  \<open>True\<close>.
\<close>

definition update_values :: "'f engine \<Rightarrow> 'f product \<Rightarrow> 'f product \<Rightarrow> exn + 'f product" where
  "update_values eng loaded p =
     (case (if name p = name loaded then Inr (name loaded)
            else String_column eng 255 (name p)) of
        Inl e \<Rightarrow> Inl e
      | Inr n \<Rightarrow>
     (case (if description p = description loaded then Inr (description loaded)
            else String_column eng 1024 (description p)) of
        Inl e \<Rightarrow> Inl e
      | Inr d \<Rightarrow>
     (case (if available p = available loaded then Inr (available loaded)
            else Boolean_column eng (available p)) of
        Inl e \<Rightarrow> Inl e
      | Inr a \<Rightarrow>
     let row = p\<lparr>name := n, description := d, available := a\<rparr> in
     if not_null row then Inr row else Inl SQLAlchemyError)))"

definition session_commit ::
  "'f store \<Rightarrow> 'f product \<Rightarrow> 'f product \<Rightarrow> (exn + 'f product) \<times> 'f store" where
  "session_commit st loaded p =
     (case update_values (engine st) loaded p of
        Inl e \<Rightarrow> (Inl e, st)
      | Inr row \<Rightarrow>
          (Inr row, st\<lparr>rows := map (\<lambda>r. if id' r = id' row then row else r) (rows st)\<rparr>))"

text \<open>\<open>db.session.delete(product); db.session.commit()\<close>: a DELETE by key.\<close>

definition session_delete_commit :: "'f store \<Rightarrow> 'f product \<Rightarrow> 'f store" where
  "session_delete_commit st p = st\<lparr>rows := filter (\<lambda>r. id' r \<noteq> id' p) (rows st)\<rparr>"

text \<open>
  What the schema guarantees of every state of the table: no NULL in a
  \<open>nullable=False\<close> column, no key twice, and every key below the next one the engine
  hands out.
\<close>

definition store_ok :: "'f store \<Rightarrow> bool" where
  "store_ok st =
     ((\<forall>p \<in> set (rows st). not_null p) \<and> distinct (ids st) \<and>
      (\<forall>k \<in> set (ids st). case k of None \<Rightarrow> False | Some i \<Rightarrow> i < next_id st))"

section \<open>The routes: \<open>service/routes.py\<close>\<close>

text \<open>
  What a handler reads of a request: the value of the \<open>Content-Type\<close> header if the
  header is there, the body as \<open>request.get_json()\<close> parses it (\<open>None\<close>: the body is no
  JSON text), and the arguments of the query string.
\<close>

record 'f request =
  content_type :: "string option"
  json :: "'f pyval option"
  args :: "(string \<times> string) list"

text \<open>
  A response: the status code, the body, and the product the \<open>Location\<close> header points
  to. \<open>Error_json\<close> is the body of the error handlers,
  \<open>jsonify(status=..., error=..., message=...)\<close>: the code, the label, and in place of
  the message text the exception the request ended with.
\<close>

datatype 'f body =
    Json "'f pyval"
  | Text string
  | Error_json nat string exn
  | Default_page

record 'f response =
  status :: nat
  body :: "'f body"
  location :: "int option"

definition check_content_type :: "string \<Rightarrow> 'f request \<Rightarrow> exn + unit" where
  "check_content_type ct req =
     (case content_type req of
        None \<Rightarrow> Inl (HTTPException 415 (Content_type_must_be ct))
      | Some v \<Rightarrow>
          if v \<noteq> ct then Inl (HTTPException 415 (Content_type_must_be ct))
          else Inr ())"

text \<open>\<open>request.get_json()\<close> of a request whose content type is JSON: a body that does
  not parse aborts with 400.\<close>

definition get_json :: "'f request \<Rightarrow> exn + 'f pyval" where
  "get_json req =
     (case json req of None \<Rightarrow> Inl (HTTPException 400 Bad_json) | Some data \<Rightarrow> Inr data)"

text \<open>
  A handler returns its response or raises; with it comes the store as it is once the
  request is over. What was not committed is gone with the request's session.
\<close>

definition create_products ::
  "'f builtins \<Rightarrow> 'f request \<Rightarrow> 'f store \<Rightarrow> (exn + 'f response) \<times> 'f store" where
  "create_products bi req st =
     (case check_content_type ''application/json'' req of
        Inl e \<Rightarrow> (Inl e, st)
      | Inr _ \<Rightarrow>
     (case get_json req of
        Inl e \<Rightarrow> (Inl e, st)
      | Inr data \<Rightarrow>
     (case deserialize bi Product data of
        (_, Some e) \<Rightarrow> (Inl e, st)
      | (product, None) \<Rightarrow>
     (case session_add_commit st product of
        (Inl e, st') \<Rightarrow> (Inl e, st')
      | (Inr product, st') \<Rightarrow>
     (case serialize product of
        Inl e \<Rightarrow> (Inl e, st')
      | Inr result \<Rightarrow>
          (Inr \<lparr>status = 201, body = Json result, location = id' product\<rparr>, st'))))))"

text \<open>\<open>if name:\<close> on an argument of the query string: the argument is there and is not
  the empty string.\<close>

definition truthy :: "string option \<Rightarrow> bool" where
  "truthy v = (case v of None \<Rightarrow> False | Some s \<Rightarrow> s \<noteq> [])"

text \<open>The text of an argument that is there.\<close>

definition text_of :: "string option \<Rightarrow> string" where
  "text_of v = (case v of None \<Rightarrow> [] | Some s \<Rightarrow> s)"

text \<open>\<open>[p.serialize() for p in query.all()]\<close>: the first exception ends the loop.\<close>

fun serialize_all :: "'f product list \<Rightarrow> exn + 'f pyval list" where
  "serialize_all [] = Inr []"
| "serialize_all (p # ps) =
     (case serialize p of
        Inl e \<Rightarrow> Inl e
      | Inr v \<Rightarrow> (case serialize_all ps of Inl e \<Rightarrow> Inl e | Inr vs \<Rightarrow> Inr (v # vs)))"

text \<open>
  The query \<open>list_products\<close> builds. \<open>Category[...]\<close> raises nothing but a KeyError,
  which the handler answers with \<open>filter_by(category=None)\<close>, the rows whose category
  is NULL.
\<close>

definition list_query :: "'f builtins \<Rightarrow> 'f request \<Rightarrow> 'f product list \<Rightarrow> 'f product list" where
  "list_query bi req query =
     (let name_str = map_of (args req) ''name'';
          category_str = map_of (args req) ''category'';
          available_str = map_of (args req) ''available''
      in
        if truthy name_str then
          filter (\<lambda>p. name p = PStr (text_of name_str)) query
        else if truthy category_str then
          (case Category_getitem (str_upper bi (text_of category_str)) of
             Inr c \<Rightarrow> filter (\<lambda>p. category p = Some c) query
           | Inl _ \<Rightarrow> filter (\<lambda>p. category p = None) query)
        else if truthy available_str then
          (let a = str_lower bi (text_of available_str) \<in> set [''true'', ''1'', ''yes'']
           in filter (\<lambda>p. available p = PBool a) query)
        else query)"

text \<open>\<open>results = [p.serialize() for p in query.all()]\<close> and
  \<open>return jsonify(results), status.HTTP_200_OK\<close>.\<close>

definition list_response :: "'f product list \<Rightarrow> exn + 'f response" where
  "list_response ps =
     (case serialize_all ps of
        Inl e \<Rightarrow> Inl e
      | Inr results \<Rightarrow> Inr \<lparr>status = 200, body = Json (PList results), location = None\<rparr>)"

definition list_products :: "'f builtins \<Rightarrow> 'f request \<Rightarrow> 'f store \<Rightarrow> exn + 'f response" where
  "list_products bi req st = list_response (list_query bi req (rows st))"

definition get_products :: "int \<Rightarrow> 'f store \<Rightarrow> exn + 'f response" where
  "get_products product_id st =
     (case query_get st product_id of
        None \<Rightarrow> Inl (HTTPException 404 (Product_not_found product_id))
      | Some product \<Rightarrow>
          (case serialize product of
             Inl e \<Rightarrow> Inl e
           | Inr result \<Rightarrow> Inr \<lparr>status = 200, body = Json result, location = None\<rparr>))"

definition update_products ::
  "'f builtins \<Rightarrow> int \<Rightarrow> 'f request \<Rightarrow> 'f store \<Rightarrow> (exn + 'f response) \<times> 'f store" where
  "update_products bi product_id req st =
     (case check_content_type ''application/json'' req of
        Inl e \<Rightarrow> (Inl e, st)
      | Inr _ \<Rightarrow>
     (case query_get st product_id of
        None \<Rightarrow> (Inl (HTTPException 404 (Product_not_found product_id)), st)
      | Some loaded \<Rightarrow>
     (case get_json req of
        Inl e \<Rightarrow> (Inl e, st)
      | Inr data \<Rightarrow>
     (case deserialize bi loaded data of
        (_, Some e) \<Rightarrow> (Inl e, st)
      | (product, None) \<Rightarrow>
     (case session_commit st loaded product of
        (Inl e, st') \<Rightarrow> (Inl e, st')
      | (Inr product, st') \<Rightarrow>
     (case serialize product of
        Inl e \<Rightarrow> (Inl e, st')
      | Inr result \<Rightarrow>
          (Inr \<lparr>status = 200, body = Json result, location = None\<rparr>, st')))))))"

definition delete_products :: "int \<Rightarrow> 'f store \<Rightarrow> 'f response \<times> 'f store" where
  "delete_products product_id st =
     (case query_get st product_id of
        Some product \<Rightarrow>
          (\<lparr>status = 204, body = Text [], location = None\<rparr>, session_delete_commit st product)
      | None \<Rightarrow> (\<lparr>status = 204, body = Text [], location = None\<rparr>, st))"

section \<open>The error handlers: \<open>service/common/error_handlers.py\<close>\<close>

text \<open>
  A DataValidationError is answered by \<open>bad_request\<close>; an \<open>abort\<close> by the handler
  registered for its code, or by the framework's page when there is none; any other
  exception is an internal server error.
\<close>

definition error_json :: "nat \<Rightarrow> string \<Rightarrow> exn \<Rightarrow> 'f response" where
  "error_json code label e = \<lparr>status = code, body = Error_json code label e, location = None\<rparr>"

fun error_handler :: "exn \<Rightarrow> 'f response" where
  "error_handler (DataValidationError m) = error_json 400 ''Bad Request'' (DataValidationError m)"
| "error_handler (HTTPException code d) =
     (if code = 400 then error_json 400 ''Bad Request'' (HTTPException code d)
      else if code = 404 then error_json 404 ''Not Found'' (HTTPException code d)
      else if code = 405 then error_json 405 ''Method not Allowed'' (HTTPException code d)
      else if code = 415 then error_json 415 ''Unsupported media type'' (HTTPException code d)
      else if code = 500 then error_json 500 ''Internal Server Error'' (HTTPException code d)
      else \<lparr>status = code, body = Default_page, location = None\<rparr>)"
| "error_handler e = error_json 500 ''Internal Server Error'' e"

text \<open>The response the client receives from a handler that returned or raised.\<close>

definition respond :: "exn + 'f response \<Rightarrow> 'f response" where
  "respond r = (case r of Inl e \<Rightarrow> error_handler e | Inr resp \<Rightarrow> resp)"

section \<open>A fragment of CPython for the examples\<close>

text \<open>
  The theorems below hold for every choice of the built-ins. The examples need one
  choice to run on, and this is a fragment of CPython's: \<open>upper\<close> and \<open>lower\<close> on ASCII
  letters, \<open>float\<close> on an int of magnitude up to \<open>2^53\<close> (no rounding there) with a
  float written as the rational number it is, and \<open>float\<close> on a str of one to fifteen
  decimal digits. Outside the fragment (text beyond ASCII, larger ints, other spellings
  of a number) it is not CPython; the examples stay inside it.
\<close>

definition ascii_upper :: "string \<Rightarrow> string" where
  "ascii_upper =
     map (\<lambda>c. case map_of (zip ''abcdefghijklmnopqrstuvwxyz'' ''ABCDEFGHIJKLMNOPQRSTUVWXYZ'') c of
                 None \<Rightarrow> c | Some u \<Rightarrow> u)"

definition ascii_lower :: "string \<Rightarrow> string" where
  "ascii_lower =
     map (\<lambda>c. case map_of (zip ''ABCDEFGHIJKLMNOPQRSTUVWXYZ'' ''abcdefghijklmnopqrstuvwxyz'') c of
                 None \<Rightarrow> c | Some l \<Rightarrow> l)"

fun decimal :: "string \<Rightarrow> nat \<Rightarrow> nat option" where
  "decimal [] acc = Some acc"
| "decimal (c # cs) acc =
     (case map_of (zip ''0123456789'' [0, 1, 2, 3, 4, 5, 6, 7, 8, 9]) c of
        None \<Rightarrow> None
      | Some d \<Rightarrow> decimal cs (10 * acc + d))"

definition cpython :: "rat builtins" where
  "cpython =
     \<lparr>float_of_int = (\<lambda>i. if \<bar>i\<bar> \<le> 2 ^ 53 then Some (of_int i) else None),
      float_of_str = (\<lambda>s. if s = [] \<or> 15 < length s then None
                           else map_option of_nat (decimal s 0)),
      str_upper = ascii_upper,
      str_lower = ascii_lower\<rparr>"

text \<open>
  An engine for the examples, again a fragment: a str no longer than its column is
  stored as it is, a bool as it is, and a refused INSERT uses up no key. Every other
  value is refused here, where engines differ; the examples write none.
\<close>

definition plain_engine :: "rat engine" where
  "plain_engine =
     \<lparr>as_string = (\<lambda>n v. case v of PStr s \<Rightarrow> if length s \<le> n then Some s else None | _ \<Rightarrow> None),
      as_boolean = (\<lambda>v. case v of PBool b \<Rightarrow> Some b | _ \<Rightarrow> None),
      keys_skipped = (\<lambda>p. 0)\<rparr>"

text \<open>A table of two products, and requests, for the examples.\<close>

definition hat :: "rat product" where
  "hat = \<lparr>id' = Some 1, name = PStr ''Hat'', description = PStr ''A red hat'',
          category = Some CLOTHING, available = PBool True, price = Some (25 / 2)\<rparr>"

definition apple :: "rat product" where
  "apple = \<lparr>id' = Some 2, name = PStr ''Apple'', description = PStr [],
            category = Some FOOD, available = PBool False, price = Some 1\<rparr>"

definition shelf :: "rat store" where
  "shelf = \<lparr>rows = [hat, apple], next_id = 3, engine = plain_engine\<rparr>"

definition get_request :: "(string \<times> string) list \<Rightarrow> rat request" where
  "get_request query_string = \<lparr>content_type = None, json = None, args = query_string\<rparr>"

definition json_request :: "rat pyval \<Rightarrow> rat request" where
  "json_request data = \<lparr>content_type = Some ''application/json'', json = Some data, args = []\<rparr>"

section \<open>What \<open>deserialize\<close> does\<close>

lemma cpython_simps:
  "float_of_int cpython i = (if \<bar>i\<bar> \<le> 2 ^ 53 then Some (of_int i) else None)"
  "float_of_str cpython s =
     (if s = [] \<or> 15 < length s then None else map_option of_nat (decimal s 0))"
  "str_upper cpython = ascii_upper"
  "str_lower cpython = ascii_lower"
  by (simp_all add: cpython_def)

lemma deserialize_try_id: "id' (fst (deserialize_try bi self data)) = id' self"
  by (simp add: deserialize_try_def Let_def split: sum.splits)

lemma deserialize_id: "id' (fst (deserialize bi self data)) = id' self"
  using deserialize_try_id [of bi self data]
  by (cases "deserialize_try bi self data") (simp add: deserialize_def split: option.splits)

lemma deserialize_not_dict:
  assumes "\<And>d. data \<noteq> PDict d"
  shows "deserialize bi self data = (self, Some TypeError)"
  using assms by (cases data) (auto simp: deserialize_def deserialize_try_def)

lemma deserialize_success:
  assumes "map_of d ''name'' = Some n"
      and "map_of d ''category'' = Some (PStr label)"
      and "Category_getitem (str_upper bi label) = Inr c"
      and "map_of d ''price'' = Some pv"
      and "py_float bi pv = Inr x"
  shows "deserialize bi self (PDict d) =
           (self\<lparr>name := n,
                 description := (case map_of d ''description'' of None \<Rightarrow> PStr [] | Some v \<Rightarrow> v),
                 category := Some c,
                 available := (case map_of d ''available'' of None \<Rightarrow> PBool True | Some v \<Rightarrow> v),
                 price := Some x\<rparr>, None)"
  using assms
  by (simp add: deserialize_def deserialize_try_def data_category_def data_price_def
      split: option.splits)

lemma data_category_dict:
  "data_category bi (PDict d) =
     (case map_of d ''category'' of
        None \<Rightarrow> Inl (KeyError ''category'')
      | Some (PStr label) \<Rightarrow> Category_getitem (str_upper bi label)
      | Some _ \<Rightarrow> Inl AttributeError)"
  by (simp add: data_category_def split: option.splits pyval.splits)

lemma data_price_dict:
  "data_price bi (PDict d) =
     (case map_of d ''price'' of None \<Rightarrow> Inl (KeyError ''price'') | Some pv \<Rightarrow> py_float bi pv)"
  by (simp add: data_price_def split: option.splits)

lemma Category_getitem_Inl: "Category_getitem u = Inl e \<Longrightarrow> e = KeyError u"
  by (simp add: Category_getitem_def split: if_splits)

text \<open>The places where the statements of \<open>deserialize\<close> can stop on a mapping.\<close>

lemma deserialize_stops_at_name:
  assumes "map_of d ''name'' = None"
  shows "deserialize bi self (PDict d) = (self, Some (DataValidationError (Missing_key ''name'')))"
  using assms by (simp add: deserialize_def deserialize_try_def)

lemma deserialize_stops_at_category:
  assumes "map_of d ''name'' = Some n"
      and "data_category bi (PDict d) = Inl e"
  shows "deserialize bi self (PDict d) =
           (self\<lparr>name := n,
                 description := (case map_of d ''description'' of None \<Rightarrow> PStr [] | Some v \<Rightarrow> v)\<rparr>,
            Some (deserialize_except e))"
  using assms
  by (simp add: deserialize_def deserialize_try_def split: option.splits)

lemma deserialize_stops_at_price:
  assumes "map_of d ''name'' = Some n"
      and "data_category bi (PDict d) = Inr c"
      and "data_price bi (PDict d) = Inl e"
  shows "deserialize bi self (PDict d) =
           (self\<lparr>name := n,
                 description := (case map_of d ''description'' of None \<Rightarrow> PStr [] | Some v \<Rightarrow> v),
                 category := Some c,
                 available := (case map_of d ''available'' of None \<Rightarrow> PBool True | Some v \<Rightarrow> v)\<rparr>,
            Some (deserialize_except e))"
  using assms
  by (simp add: deserialize_def deserialize_try_def split: option.splits)

lemma deserialize_returns:
  assumes "map_of d ''name'' = Some n"
      and "data_category bi (PDict d) = Inr c"
      and "data_price bi (PDict d) = Inr x"
  shows "deserialize bi self (PDict d) =
           (self\<lparr>name := n,
                 description := (case map_of d ''description'' of None \<Rightarrow> PStr [] | Some v \<Rightarrow> v),
                 category := Some c,
                 available := (case map_of d ''available'' of None \<Rightarrow> PBool True | Some v \<Rightarrow> v),
                 price := Some x\<rparr>, None)"
  using assms
  by (simp add: deserialize_def deserialize_try_def split: option.splits)

lemma deserialize_except_validation:
  "deserialize_except e = DataValidationError m \<longleftrightarrow>
     (\<exists>k. e = KeyError k \<and> m = Missing_key k) \<or> (\<exists>s. e = ValueError s \<and> m = Invalid_value s)
     \<or> e = DataValidationError m"
  by (cases e) auto

lemma py_float_Inl:
  "py_float bi pv = Inl e \<Longrightarrow>
     (\<exists>s. pv = PStr s \<and> float_of_str bi s = None \<and> e = ValueError s)
     \<or> (\<forall>s. pv \<noteq> PStr s) \<and> (e = OverflowError \<or> e = TypeError)"
  by (cases pv) (auto split: option.splits)

text \<open>When, and only when, a mapping is rejected with a DataValidationError.\<close>

lemma deserialize_validation_error_iff:
  "snd (deserialize bi self (PDict d)) = Some (DataValidationError m) \<longleftrightarrow>
     map_of d ''name'' = None \<and> m = Missing_key ''name''
     \<or> map_of d ''name'' \<noteq> None \<and>
        (map_of d ''category'' = None \<and> m = Missing_key ''category''
         \<or> (\<exists>label. map_of d ''category'' = Some (PStr label) \<and>
               Category_getitem (str_upper bi label) = Inl (KeyError (str_upper bi label)) \<and>
               m = Missing_key (str_upper bi label))
         \<or> (\<exists>c. data_category bi (PDict d) = Inr c) \<and>
            (map_of d ''price'' = None \<and> m = Missing_key ''price''
             \<or> (\<exists>s. map_of d ''price'' = Some (PStr s) \<and> float_of_str bi s = None \<and>
                   m = Invalid_value s)))"
  (is "?l \<longleftrightarrow> ?r")
proof (cases "map_of d ''name''")
  case None
  with deserialize_stops_at_name [OF None, of bi self] show ?thesis by auto
next
  case (Some n)
  show ?thesis
  proof (cases "data_category bi (PDict d)")
    case (Inl e)
    from Inl have "(map_of d ''category'' = None \<and> e = KeyError ''category'')
      \<or> (\<exists>label. map_of d ''category'' = Some (PStr label) \<and>
            Category_getitem (str_upper bi label) = Inl (KeyError (str_upper bi label)) \<and>
            e = KeyError (str_upper bi label))
      \<or> ((\<exists>cv. map_of d ''category'' = Some cv \<and> (\<forall>label. cv \<noteq> PStr label)) \<and> e = AttributeError)"
      by (auto simp: data_category_dict split: option.splits pyval.splits dest: Category_getitem_Inl)
    with Inl Some deserialize_stops_at_category [OF Some Inl, of self] show ?thesis
      by auto
  next
    case (Inr c)
    show ?thesis
    proof (cases "data_price bi (PDict d)")
      case (Inl e)
      from Inl have "(map_of d ''price'' = None \<and> e = KeyError ''price'')
        \<or> (\<exists>s. map_of d ''price'' = Some (PStr s) \<and> float_of_str bi s = None \<and> e = ValueError s)
        \<or> (map_of d ''price'' \<noteq> None \<and> (\<forall>s. map_of d ''price'' \<noteq> Some (PStr s)) \<and>
            (e = OverflowError \<or> e = TypeError))"
        by (auto simp: data_price_dict split: option.splits dest!: py_float_Inl)
      moreover from Inr have "map_of d ''category'' \<noteq> None"
        "\<And>label. map_of d ''category'' = Some (PStr label) \<Longrightarrow>
           Category_getitem (str_upper bi label) \<noteq> Inl (KeyError (str_upper bi label))"
        by (auto simp: data_category_dict split: option.splits)
      ultimately show ?thesis
        using Some Inr deserialize_stops_at_price [OF Some Inr Inl, of self]
        by auto
    next
      case (Inr x)
      have "map_of d ''category'' \<noteq> None"
        "\<And>label. map_of d ''category'' = Some (PStr label) \<Longrightarrow>
           Category_getitem (str_upper bi label) \<noteq> Inl (KeyError (str_upper bi label))"
        using \<open>data_category bi (PDict d) = Inr c\<close>
        by (auto simp: data_category_dict split: option.splits)
      moreover from Inr have "map_of d ''price'' \<noteq> None"
        "\<And>s. map_of d ''price'' = Some (PStr s) \<Longrightarrow> float_of_str bi s \<noteq> None"
        by (auto simp: data_price_dict split: option.splits)
      ultimately show ?thesis
        using Some deserialize_returns [OF Some \<open>data_category bi (PDict d) = Inr c\<close> Inr, of self]
        by auto
    qed
  qed
qed

lemma ascii_upper_examples:
  "ascii_upper ''Food'' = ''FOOD''" "ascii_upper ''food'' = ''FOOD''"
  "ascii_upper ''cLothing'' = ''CLOTHING''" "ascii_upper ''bogus'' = ''BOGUS''"
  by (simp_all add: ascii_upper_def)

text \<open>The label a category is serialized as is one that \<open>deserialize\<close> reads back as
  the same category, in the fragment of CPython above.\<close>

lemma Category_value_getitem: "Category_getitem (ascii_upper (Category_value c)) = Inr c"
  by (cases c) (simp_all add: ascii_upper_def Category_getitem_def)

text \<open>A label whose upper-case form is that of an enumerated label is read as the
  category that is serialized as that enumerated label.\<close>

lemma ascii_upper_labels:
  "ascii_upper ''Electronics'' = ''ELECTRONICS''" "ascii_upper ''Clothing'' = ''CLOTHING''"
  "ascii_upper ''Food'' = ''FOOD''" "ascii_upper ''Books'' = ''BOOKS''"
  "ascii_upper ''Other'' = ''OTHER''"
  by (simp_all add: ascii_upper_def)

lemma canonical_label:
  assumes "(u, canonical) \<in> set [(''ELECTRONICS'', ''Electronics''), (''CLOTHING'', ''Clothing''),
             (''FOOD'', ''Food''), (''BOOKS'', ''Books''), (''OTHER'', ''Other'')]"
  shows "\<exists>c. Category_getitem u = Inr c \<and> Category_value c = canonical \<and>
           ascii_upper canonical = u"
proof -
  have 1: "Category_getitem ''ELECTRONICS'' = Inr ELECTRONICS"
    and 2: "Category_getitem ''CLOTHING'' = Inr CLOTHING"
    and 3: "Category_getitem ''FOOD'' = Inr FOOD"
    and 4: "Category_getitem ''BOOKS'' = Inr BOOKS"
    and 5: "Category_getitem ''OTHER'' = Inr OTHER"
    by (simp_all add: Category_getitem_def)
  from assms have
    "u = ''ELECTRONICS'' \<and> canonical = ''Electronics''
     \<or> u = ''CLOTHING'' \<and> canonical = ''Clothing''
     \<or> u = ''FOOD'' \<and> canonical = ''Food''
     \<or> u = ''BOOKS'' \<and> canonical = ''Books''
     \<or> u = ''OTHER'' \<and> canonical = ''Other''"
    by (simp only: list.set insert_iff empty_iff prod.inject simp_thms)
  then show ?thesis
  proof (elim disjE conjE)
    assume "u = ''ELECTRONICS''" "canonical = ''Electronics''"
    then show ?thesis
      by (intro exI [of _ ELECTRONICS]) (simp only: 1 ascii_upper_labels Category_value.simps simp_thms)
  next
    assume "u = ''CLOTHING''" "canonical = ''Clothing''"
    then show ?thesis
      by (intro exI [of _ CLOTHING]) (simp only: 2 ascii_upper_labels Category_value.simps simp_thms)
  next
    assume "u = ''FOOD''" "canonical = ''Food''"
    then show ?thesis
      by (intro exI [of _ FOOD]) (simp only: 3 ascii_upper_labels Category_value.simps simp_thms)
  next
    assume "u = ''BOOKS''" "canonical = ''Books''"
    then show ?thesis
      by (intro exI [of _ BOOKS]) (simp only: 4 ascii_upper_labels Category_value.simps simp_thms)
  next
    assume "u = ''OTHER''" "canonical = ''Other''"
    then show ?thesis
      by (intro exI [of _ OTHER]) (simp only: 5 ascii_upper_labels Category_value.simps simp_thms)
  qed
qed

text \<open>
  Claim C1. Take a mapping that has a \<open>name\<close>, a \<open>category\<close> that is a label equal to
  one of the five enumerated labels when case is ignored (its upper-case form is that
  of the enumerated label), and a \<open>price\<close> that \<open>float\<close> converts. Then \<open>deserialize\<close>
  succeeds on any object, and \<open>serialize\<close> of the object gives back the input's name,
  its description (the empty string if it had none), that enumerated label in its own
  spelling, its availability (true if it had none) and the converted price. The label
  given back and the label of the input are equal when case is ignored. The \<open>id\<close> is
  the object's, not the input's.
\<close>

theorem deserialize_serialize_round_trip:
  assumes "map_of d ''name'' = Some n"
      and "map_of d ''category'' = Some (PStr label)"
      and "(str_upper bi label, canonical) \<in>
             set [(''ELECTRONICS'', ''Electronics''), (''CLOTHING'', ''Clothing''),
                  (''FOOD'', ''Food''), (''BOOKS'', ''Books''), (''OTHER'', ''Other'')]"
      and "map_of d ''price'' = Some pv"
      and "py_float bi pv = Inr x"
  shows "(\<exists>self'. deserialize bi self (PDict d) = (self', None) \<and>
           serialize self' =
             Inr (PDict
               [(''id'', case id' self of None \<Rightarrow> PNone | Some i \<Rightarrow> PInt i),
                (''name'', n),
                (''description'', case map_of d ''description'' of None \<Rightarrow> PStr [] | Some v \<Rightarrow> v),
                (''category'', PStr canonical),
                (''available'', case map_of d ''available'' of None \<Rightarrow> PBool True | Some v \<Rightarrow> v),
                (''price'', PFloat x)])) \<and>
         ascii_upper canonical = str_upper bi label"
proof -
  from canonical_label [OF assms(3)] obtain c
    where c: "Category_getitem (str_upper bi label) = Inr c" "Category_value c = canonical"
      "ascii_upper canonical = str_upper bi label"
    by blast
  from deserialize_success [OF assms(1,2) c(1) assms(4,5), of self] c(2,3)
  show ?thesis by (simp add: serialize_def)
qed

theorem deserialize_serialize_round_trip_witness:
  "(\<exists>self'. deserialize cpython Product
       (PDict [(''id'', PInt 7), (''name'', PStr ''Hat''), (''category'', PStr ''cLothing''),
               (''price'', PStr ''12'')]) = (self', None) \<and>
     serialize self' =
       Inr (PDict [(''id'', PNone), (''name'', PStr ''Hat''), (''description'', PStr []),
                   (''category'', PStr ''Clothing''), (''available'', PBool True),
                   (''price'', PFloat 12)])) \<and>
   ascii_upper ''Clothing'' = str_upper cpython ''cLothing''"
  using deserialize_serialize_round_trip
    [of "[(''id'', PInt 7), (''name'', PStr ''Hat''), (''category'', PStr ''cLothing''),
          (''price'', PStr ''12'')]"
        "PStr ''Hat''" "''cLothing''" cpython "''Clothing''" "PStr ''12''" 12 Product]
  by (simp add: cpython_simps ascii_upper_examples Product_def)

text \<open>
  Claim C2. On a mapping, \<open>deserialize\<close> should fail with a validation error exactly
  when \<open>name\<close>, \<open>category\<close> or \<open>price\<close> is absent, the category matches no member,
  or the price cannot be converted to a number. The code raises something else where
  the claim asks for a validation error: a price of \<open>null\<close> cannot be converted, and
  \<open>float\<close> raises a TypeError that no \<open>except\<close> clause catches; a category that is not
  a str has no \<open>upper\<close>, an AttributeError. \<open>deserialize_validation_error_iff\<close> above
  says when the validation error is raised.
\<close>

theorem deserialize_null_price_type_error:
  "deserialize cpython Product
     (PDict [(''name'', PStr ''Hat''), (''category'', PStr ''Food''), (''price'', PNone)]) =
   (\<lparr>id' = None, name = PStr ''Hat'', description = PStr [], category = Some FOOD,
     available = PBool True, price = None\<rparr>, Some TypeError) \<and>
   deserialize cpython Product
     (PDict [(''name'', PStr ''Hat''), (''category'', PInt 5), (''price'', PInt 1)]) =
   (\<lparr>id' = None, name = PStr ''Hat'', description = PStr [], category = None,
     available = PNone, price = None\<rparr>, Some AttributeError) \<and>
   respond (fst (create_products cpython
     (json_request (PDict [(''name'', PStr ''Hat''), (''category'', PStr ''Food''), (''price'', PNone)]))
     shelf)) =
   \<lparr>status = 500, body = Error_json 500 ''Internal Server Error'' TypeError, location = None\<rparr>"
  by (simp add: deserialize_def deserialize_try_def data_category_def data_price_def Product_def
      cpython_simps ascii_upper_examples Category_getitem_def create_products_def
      json_request_def check_content_type_def get_json_def respond_def error_json_def)

text \<open>
  Claim C3 asks that a failed \<open>deserialize\<close> leaves every attribute as it was. The
  statements assign as they go: on a mapping with a name and a price but no category,
  the name and the description of a stored product are overwritten before the
  validation error is raised.
\<close>

theorem deserialize_partial_mutation_counterexample:
  "deserialize cpython
     \<lparr>id' = Some 3, name = PStr ''Hat'', description = PStr ''A red hat'',
      category = Some CLOTHING, available = PBool True, price = Some 12\<rparr>
     (PDict [(''name'', PStr ''Cap''), (''price'', PInt 5)]) =
   (\<lparr>id' = Some 3, name = PStr ''Cap'', description = PStr [],
     category = Some CLOTHING, available = PBool True, price = Some 12\<rparr>,
    Some (DataValidationError (Missing_key ''category'')))"
  by (simp add: deserialize_def deserialize_try_def data_category_def)

text \<open>
  Claim C3, amended. When \<open>deserialize\<close> fails on a mapping with a validation error,
  the attributes assigned before the failing statement hold the input's values and the
  others are unchanged. The \<open>id\<close> and the price are never changed. If the name is
  absent, nothing is changed. If the category is what fails, the name and the
  description (the empty string if the input has none) have been overwritten. If the
  price is what fails, the name, the description, the category and the availability
  (true if the input has none) have been overwritten.
\<close>

theorem deserialize_failure_partial_update:
  assumes "deserialize bi self (PDict d) = (self', Some (DataValidationError m))"
  shows "id' self' = id' self \<and> price self' = price self \<and>
     (map_of d ''name'' = None \<and> self' = self
      \<or> (\<exists>n e. map_of d ''name'' = Some n \<and> data_category bi (PDict d) = Inl e \<and>
            self' = self\<lparr>name := n,
              description := (case map_of d ''description'' of None \<Rightarrow> PStr [] | Some v \<Rightarrow> v)\<rparr>)
      \<or> (\<exists>n c e. map_of d ''name'' = Some n \<and> data_category bi (PDict d) = Inr c \<and>
            data_price bi (PDict d) = Inl e \<and>
            self' = self\<lparr>name := n,
              description := (case map_of d ''description'' of None \<Rightarrow> PStr [] | Some v \<Rightarrow> v),
              category := Some c,
              available := (case map_of d ''available'' of None \<Rightarrow> PBool True | Some v \<Rightarrow> v)\<rparr>))"
proof (cases "map_of d ''name''")
  case None
  with assms deserialize_stops_at_name [OF None, of bi self] show ?thesis by simp
next
  case (Some n)
  show ?thesis
  proof (cases "data_category bi (PDict d)")
    case (Inl e)
    with assms deserialize_stops_at_category [OF Some Inl, of self] Some show ?thesis by auto
  next
    case (Inr c)
    show ?thesis
    proof (cases "data_price bi (PDict d)")
      case (Inl e)
      with assms deserialize_stops_at_price [OF Some Inr Inl, of self] Some Inr
      show ?thesis by auto
    next
      case (Inr x)
      with assms deserialize_returns [OF Some \<open>data_category bi (PDict d) = Inr c\<close> Inr, of self]
      show ?thesis by simp
    qed
  qed
qed

theorem deserialize_failure_partial_update_witness:
  "deserialize cpython
     \<lparr>id' = Some 3, name = PStr ''Hat'', description = PStr ''A red hat'',
      category = Some CLOTHING, available = PBool True, price = Some 12\<rparr>
     (PDict [(''name'', PStr ''Cap''), (''category'', PStr ''food''), (''available'', PBool False),
             (''price'', PStr ''cheap'')]) =
   (\<lparr>id' = Some 3, name = PStr ''Cap'', description = PStr [],
     category = Some FOOD, available = PBool False, price = Some 12\<rparr>,
    Some (DataValidationError (Invalid_value ''cheap''))) \<and>
   data_category cpython
     (PDict [(''name'', PStr ''Cap''), (''category'', PStr ''food''), (''available'', PBool False),
             (''price'', PStr ''cheap'')]) = Inr FOOD \<and>
   data_price cpython
     (PDict [(''name'', PStr ''Cap''), (''category'', PStr ''food''), (''available'', PBool False),
             (''price'', PStr ''cheap'')]) = Inl (ValueError ''cheap'')"
proof -
  let ?self = "\<lparr>id' = Some 3, name = PStr ''Hat'', description = PStr ''A red hat'',
      category = Some CLOTHING, available = PBool True, price = Some (12::rat)\<rparr>"
  let ?d = "[(''name'', PStr ''Cap''), (''category'', PStr ''food''), (''available'', PBool False),
             (''price'', PStr ''cheap'')]"
  let ?self' = "\<lparr>id' = Some 3, name = PStr ''Cap'', description = PStr [],
     category = Some FOOD, available = PBool False, price = Some (12::rat)\<rparr>"
  have c: "data_category cpython (PDict ?d) = Inr FOOD"
    by (simp add: data_category_def cpython_simps ascii_upper_examples Category_getitem_def)
  have p: "data_price cpython (PDict ?d) = Inl (ValueError ''cheap'')"
    by (simp add: data_price_def cpython_simps)
  have run: "deserialize cpython ?self (PDict ?d) =
      (?self', Some (DataValidationError (Invalid_value ''cheap'')))"
    by (simp add: deserialize_def deserialize_try_def c p)
  from deserialize_failure_partial_update [OF run] run c p show ?thesis by simp
qed

text \<open>
  Claim C4. An input that is not a mapping should be rejected with a validation error.
  \<open>data["name"]\<close> on an int, on \<open>None\<close> or on a list is a TypeError, which no \<open>except\<close>
  clause of \<open>deserialize\<close> catches: the TypeError is what the caller sees
  (\<open>deserialize_not_dict\<close> above, for every input that is no dict).
\<close>

theorem deserialize_not_a_mapping_type_error:
  "deserialize cpython Product (PInt 123) = (Product, Some TypeError) \<and>
   deserialize cpython Product PNone = (Product, Some TypeError) \<and>
   deserialize cpython Product (PList [PStr ''name'']) = (Product, Some TypeError) \<and>
   respond (fst (create_products cpython (json_request (PInt 123)) shelf)) =
   \<lparr>status = 500, body = Error_json 500 ''Internal Server Error'' TypeError, location = None\<rparr>"
  by (simp add: deserialize_def deserialize_try_def create_products_def
      json_request_def check_content_type_def get_json_def respond_def error_json_def)

section \<open>The table and its invariant\<close>

lemma serialize_hat_apple:
  "serialize hat = Inr (PDict [(''id'', PInt 1), (''name'', PStr ''Hat''),
     (''description'', PStr ''A red hat''), (''category'', PStr ''Clothing''),
     (''available'', PBool True), (''price'', PFloat (25 / 2))])"
  "serialize apple = Inr (PDict [(''id'', PInt 2), (''name'', PStr ''Apple''),
     (''description'', PStr []), (''category'', PStr ''Food''),
     (''available'', PBool False), (''price'', PFloat 1)])"
  by (simp_all add: serialize_def hat_def apple_def)

lemma shelf_fields:
  "name hat = PStr ''Hat''" "name apple = PStr ''Apple''"
  "category hat = Some CLOTHING" "category apple = Some FOOD"
  "available hat = PBool True" "available apple = PBool False"
  "id' hat = Some 1" "id' apple = Some 2" "price hat = Some (25 / 2)" "price apple = Some 1"
  "rows shelf = [hat, apple]" "next_id shelf = 3" "engine shelf = plain_engine"
  by (simp_all add: hat_def apple_def shelf_def)

lemma plain_engine_simps:
  "as_string plain_engine n (PStr s) = (if length s \<le> n then Some s else None)"
  "as_boolean plain_engine (PBool b) = Some b"
  "keys_skipped plain_engine p = 0"
  by (simp_all add: plain_engine_def)

lemma store_ok_shelf: "store_ok shelf"
  by (simp add: store_ok_def ids_def not_null_def shelf_def hat_def apple_def del: not_None_eq)

lemma store_ok_empty: "store_ok \<lparr>rows = [], next_id = n, engine = eng\<rparr>"
  by (simp add: store_ok_def ids_def)

lemma deserialize_Product_None:
  assumes "deserialize bi Product data = (p, ex)"
  shows "id' p = None"
  using deserialize_id [of bi Product data] assms by (simp add: Product_def)

text \<open>The row an INSERT or an UPDATE writes has the key, the category and the price of
  the object, and no NULL where none is allowed.\<close>

lemma insert_values_Inr:
  assumes "insert_values eng p = Inr row"
  shows "id' row = id' p" and "category row = category p" and "price row = price p"
    and "not_null row"
  using assms
  by (auto simp: insert_values_def Let_def split: sum.splits if_splits)

lemma update_values_Inr:
  assumes "update_values eng loaded p = Inr row"
  shows "id' row = id' p" and "category row = category p" and "price row = price p"
    and "not_null row"
  using assms
  by (auto simp: update_values_def Let_def split: sum.splits if_splits)

text \<open>What \<open>session_add_commit\<close> does with an object that has no key.\<close>

lemma session_add_commit_cases:
  assumes "id' p = None"
  shows "(\<exists>e. session_add_commit st p =
            (Inl e, st\<lparr>next_id := next_id st + int (keys_skipped (engine st) p)\<rparr>))
       \<or> (\<exists>row. insert_values (engine st) p = Inr row \<and> Some (next_id st) \<notin> set (ids st) \<and>
            session_add_commit st p =
              (Inr (row\<lparr>id' := Some (next_id st)\<rparr>),
               st\<lparr>rows := rows st @ [row\<lparr>id' := Some (next_id st)\<rparr>],
                  next_id := next_id st + 1\<rparr>))"
proof (cases "insert_values (engine st) p")
  case (Inl e)
  then show ?thesis by (simp add: session_add_commit_def Let_def)
next
  case (Inr row)
  with assms insert_values_Inr(1) [OF Inr] show ?thesis
    by (simp add: session_add_commit_def Let_def)
qed

lemma store_ok_insert:
  assumes "store_ok st" and "id' p = None" and "session_add_commit st p = (r, st')"
  shows "store_ok st'"
proof -
  from session_add_commit_cases [OF assms(2), of st] assms(3)
  consider "st' = st\<lparr>next_id := next_id st + int (keys_skipped (engine st) p)\<rparr>"
    | row where "insert_values (engine st) p = Inr row" "Some (next_id st) \<notin> set (ids st)"
        "st' = st\<lparr>rows := rows st @ [row\<lparr>id' := Some (next_id st)\<rparr>], next_id := next_id st + 1\<rparr>"
    by auto
  then show ?thesis
  proof cases
    case 1
    with assms(1) show ?thesis
      by (fastforce simp: store_ok_def ids_def split: option.splits)
  next
    case 2
    from insert_values_Inr(4) [OF 2(1)] have "not_null (row\<lparr>id' := Some (next_id st)\<rparr>)"
      by (simp add: not_null_def)
    with assms(1) 2 show ?thesis
      by (fastforce simp: store_ok_def ids_def split: option.splits)
  qed
qed

lemma store_ok_create_products:
  assumes "store_ok st"
  shows "store_ok (snd (create_products bi req st))"
proof -
  have "store_ok st'"
    if "deserialize bi Product data = (p, None)" and "session_add_commit st p = (r, st')"
    for data p r st'
    using store_ok_insert [OF assms deserialize_Product_None [OF that(1)] that(2)] .
  with assms show ?thesis
    by (auto simp: create_products_def split: sum.splits option.splits prod.splits)
qed

lemma session_commit_ids: "ids (snd (session_commit st loaded p)) = ids st"
  by (auto simp: session_commit_def ids_def split: sum.splits)

lemma store_ok_update:
  assumes "store_ok st" and "session_commit st loaded p = (r, st')"
  shows "store_ok st'"
proof (cases "update_values (engine st) loaded p")
  case (Inl e)
  with assms show ?thesis by (simp add: session_commit_def)
next
  case (Inr row)
  with assms(2) have st': "st' = st\<lparr>rows := map (\<lambda>r. if id' r = id' row then row else r) (rows st)\<rparr>"
    by (simp add: session_commit_def)
  from session_commit_ids [of st loaded p] assms(2) have "ids st' = ids st" by simp
  with assms(1) st' update_values_Inr(4) [OF Inr] show ?thesis
    by (auto simp: store_ok_def split: option.splits)
qed

lemma store_ok_update_products:
  assumes "store_ok st"
  shows "store_ok (snd (update_products bi product_id req st))"
  using assms store_ok_update [OF assms]
  by (auto simp: update_products_def split: sum.splits option.splits prod.splits)

lemma store_ok_delete_products:
  assumes "store_ok st"
  shows "store_ok (snd (delete_products product_id st))"
proof -
  have "store_ok (session_delete_commit st p)" for p
    using assms
    by (auto simp: store_ok_def session_delete_commit_def ids_def distinct_map_filter
        split: option.splits)
  with assms show ?thesis
    by (auto simp: delete_products_def split: option.splits)
qed

section \<open>Listing: \<open>GET /products\<close>\<close>

lemma list_query_name:
  "map_of (args req) ''name'' = Some n \<Longrightarrow> n \<noteq> [] \<Longrightarrow>
     list_query bi req query = filter (\<lambda>p. name p = PStr n) query"
  by (simp add: list_query_def truthy_def text_of_def)

lemma list_query_category:
  "map_of (args req) ''name'' \<in> {None, Some []} \<Longrightarrow>
   map_of (args req) ''category'' = Some c \<Longrightarrow> c \<noteq> [] \<Longrightarrow>
     list_query bi req query =
       filter (\<lambda>p. category p =
                 (case Category_getitem (str_upper bi c) of Inr m \<Rightarrow> Some m | Inl _ \<Rightarrow> None)) query"
  by (auto simp: list_query_def truthy_def text_of_def split: sum.splits)

lemma list_query_available:
  "map_of (args req) ''name'' \<in> {None, Some []} \<Longrightarrow>
   map_of (args req) ''category'' \<in> {None, Some []} \<Longrightarrow>
   map_of (args req) ''available'' = Some a \<Longrightarrow> a \<noteq> [] \<Longrightarrow>
     list_query bi req query =
       filter (\<lambda>p. available p = PBool (str_lower bi a \<in> {''true'', ''1'', ''yes''})) query"
  by (auto simp: list_query_def truthy_def text_of_def)

lemma list_query_all:
  "map_of (args req) ''name'' \<in> {None, Some []} \<Longrightarrow>
   map_of (args req) ''category'' \<in> {None, Some []} \<Longrightarrow>
   map_of (args req) ''available'' \<in> {None, Some []} \<Longrightarrow>
     list_query bi req query = query"
  by (auto simp: list_query_def truthy_def text_of_def)

text \<open>
  Claim C5 reads "if a name parameter is present, only name filtering is applied".
  The handler tests \<open>if name:\<close>, which an empty string fails: on
  \<open>GET /products?name=&category=Food\<close> the name parameter is present, and the
  products of the category are listed, not the products whose name is the empty
  string (there are none).
\<close>

theorem list_products_empty_name_counterexample:
  "map_of (args (get_request [(''name'', []), (''category'', ''Food'')])) ''name'' = Some [] \<and>
   list_products cpython (get_request [(''name'', []), (''category'', ''Food'')]) shelf =
     Inr \<lparr>status = 200,
          body = Json (PList [PDict [(''id'', PInt 2), (''name'', PStr ''Apple''),
            (''description'', PStr []), (''category'', PStr ''Food''),
            (''available'', PBool False), (''price'', PFloat 1)]]),
          location = None\<rparr> \<and>
   list_response (filter (\<lambda>p. name p = PStr []) (rows shelf)) =
     Inr \<lparr>status = 200, body = Json (PList []), location = None\<rparr>"
  by (simp add: list_products_def list_query_def get_request_def truthy_def text_of_def
      cpython_simps ascii_upper_examples Category_getitem_def shelf_fields list_response_def
      serialize_hat_apple)

text \<open>
  Claim C5, amended. At most one filter is applied, the first in the order name,
  category, available whose parameter is present and not the empty string. With such a
  name, the products of that exact name are listed, whatever the other parameters.
  Otherwise, with such a category, the products of the member the label names (none,
  if it names no member). Otherwise, with such an availability, the products whose flag
  is the parsed boolean. Otherwise all products.
\<close>

theorem list_products_filter_priority:
  "(\<forall>n. map_of (args req) ''name'' = Some n \<and> n \<noteq> [] \<longrightarrow>
      list_products bi req st = list_response (filter (\<lambda>p. name p = PStr n) (rows st))) \<and>
   (\<forall>c. map_of (args req) ''name'' \<in> {None, Some []} \<and>
        map_of (args req) ''category'' = Some c \<and> c \<noteq> [] \<longrightarrow>
      list_products bi req st =
        list_response (filter (\<lambda>p. category p =
           (case Category_getitem (str_upper bi c) of Inr m \<Rightarrow> Some m | Inl _ \<Rightarrow> None)) (rows st))) \<and>
   (\<forall>a. map_of (args req) ''name'' \<in> {None, Some []} \<and>
        map_of (args req) ''category'' \<in> {None, Some []} \<and>
        map_of (args req) ''available'' = Some a \<and> a \<noteq> [] \<longrightarrow>
      list_products bi req st =
        list_response (filter (\<lambda>p. available p =
           PBool (str_lower bi a \<in> {''true'', ''1'', ''yes''})) (rows st))) \<and>
   (map_of (args req) ''name'' \<in> {None, Some []} \<and>
    map_of (args req) ''category'' \<in> {None, Some []} \<and>
    map_of (args req) ''available'' \<in> {None, Some []} \<longrightarrow>
      list_products bi req st = list_response (rows st))"
proof (intro conjI allI impI)
  fix n assume "map_of (args req) ''name'' = Some n \<and> n \<noteq> []"
  then show "list_products bi req st = list_response (filter (\<lambda>p. name p = PStr n) (rows st))"
    by (simp add: list_products_def list_query_name)
next
  fix c assume "map_of (args req) ''name'' \<in> {None, Some []} \<and>
        map_of (args req) ''category'' = Some c \<and> c \<noteq> []"
  then show "list_products bi req st =
        list_response (filter (\<lambda>p. category p =
           (case Category_getitem (str_upper bi c) of Inr m \<Rightarrow> Some m | Inl _ \<Rightarrow> None)) (rows st))"
    using list_query_category [of req c bi "rows st"] by (simp add: list_products_def)
next
  fix a assume "map_of (args req) ''name'' \<in> {None, Some []} \<and>
        map_of (args req) ''category'' \<in> {None, Some []} \<and>
        map_of (args req) ''available'' = Some a \<and> a \<noteq> []"
  then show "list_products bi req st =
        list_response (filter (\<lambda>p. available p =
           PBool (str_lower bi a \<in> {''true'', ''1'', ''yes''})) (rows st))"
    using list_query_available [of req a bi "rows st"] by (simp add: list_products_def)
next
  assume "map_of (args req) ''name'' \<in> {None, Some []} \<and>
    map_of (args req) ''category'' \<in> {None, Some []} \<and>
    map_of (args req) ''available'' \<in> {None, Some []}"
  then show "list_products bi req st = list_response (rows st)"
    using list_query_all [of req bi "rows st"] by (simp add: list_products_def)
qed

theorem list_products_filter_priority_witness:
  "list_products cpython (get_request [(''name'', ''Hat''), (''category'', ''Food''), (''available'', ''false'')]) shelf =
     list_response [hat] \<and>
   list_products cpython (get_request [(''category'', ''food''), (''available'', ''true'')]) shelf =
     list_response [apple] \<and>
   list_products cpython (get_request [(''available'', ''YES'')]) shelf = list_response [hat] \<and>
   list_products cpython (get_request []) shelf = list_response [hat, apple]"
proof -
  let ?r1 = "get_request [(''name'', ''Hat''), (''category'', ''Food''), (''available'', ''false'')]"
  let ?r2 = "get_request [(''category'', ''food''), (''available'', ''true'')]"
  let ?r3 = "get_request [(''available'', ''YES'')]"
  let ?r4 = "get_request []"
  have l: "ascii_lower ''YES'' = ''yes''" by (simp add: ascii_lower_def)
  from list_products_filter_priority [of ?r1 cpython shelf]
  have 1: "list_products cpython ?r1 shelf = list_response [hat]"
    by (simp add: get_request_def shelf_fields)
  from list_products_filter_priority [of ?r2 cpython shelf]
  have 2: "list_products cpython ?r2 shelf = list_response [apple]"
    by (simp add: get_request_def shelf_fields cpython_simps ascii_upper_examples Category_getitem_def)
  from list_products_filter_priority [of ?r3 cpython shelf]
  have 3: "list_products cpython ?r3 shelf = list_response [hat]"
    by (simp add: get_request_def shelf_fields cpython_simps l)
  from list_products_filter_priority [of ?r4 cpython shelf]
  have 4: "list_products cpython ?r4 shelf = list_response [hat, apple]"
    by (simp add: get_request_def shelf_fields)
  from 1 2 3 4 show ?thesis by simp
qed

lemma serialize_all_ok:
  "\<forall>p \<in> set ps. category p \<noteq> None \<Longrightarrow> \<exists>vs. serialize_all ps = Inr vs"
  by (induction ps) (auto simp: serialize_def)

lemma list_query_subset: "set (list_query bi req query) \<subseteq> set query"
  by (auto simp: list_query_def Let_def split: sum.splits)

text \<open>Whatever the request, the listing of a table without NULL categories is a 200.\<close>

lemma list_products_status:
  assumes "\<forall>p \<in> set (rows st). category p \<noteq> None"
  shows "\<exists>results. list_products bi req st =
           Inr \<lparr>status = 200, body = Json (PList results), location = None\<rparr>"
proof -
  from assms list_query_subset [of bi req "rows st"]
  have "\<forall>p \<in> set (list_query bi req (rows st)). category p \<noteq> None" by blast
  from serialize_all_ok [OF this] show ?thesis
    by (auto simp: list_products_def list_response_def)
qed

text \<open>
  Claim C6 promises an empty list for every request whose category matches no member.
  When the request also carries a name, the name filter is the one applied:
  \<open>GET /products?name=Hat&category=bogus\<close> lists the hat. And an empty category
  parameter, which matches no member either, is no filter at all:
  \<open>GET /products?category=\<close> lists every product.
\<close>

theorem unknown_category_with_name_counterexample:
  "Category_getitem (str_upper cpython ''bogus'') = Inl (KeyError ''BOGUS'') \<and>
   list_products cpython (get_request [(''name'', ''Hat''), (''category'', ''bogus'')]) shelf =
     Inr \<lparr>status = 200,
          body = Json (PList [PDict [(''id'', PInt 1), (''name'', PStr ''Hat''),
            (''description'', PStr ''A red hat''), (''category'', PStr ''Clothing''),
            (''available'', PBool True), (''price'', PFloat (25 / 2))]]),
          location = None\<rparr> \<and>
   Category_getitem (str_upper cpython []) = Inl (KeyError []) \<and>
   list_products cpython (get_request [(''category'', [])]) shelf = list_response [hat, apple]"
  by (simp add: list_products_def list_query_def get_request_def truthy_def text_of_def
      cpython_simps ascii_upper_examples Category_getitem_def shelf_fields list_response_def
      serialize_hat_apple ascii_upper_def)

text \<open>
  Claim C6, amended. When the category filter is the one applied (the name parameter
  is absent or empty, the category parameter is not empty) and the label's upper-case
  form names no member, the response is 200 with an empty list, whatever products
  the table holds: the handler asks for the rows whose category is NULL, and the column
  is \<open>nullable=False\<close>.
\<close>

theorem unknown_category_lists_nothing:
  assumes "map_of (args req) ''name'' \<in> {None, Some []}"
      and "map_of (args req) ''category'' = Some c" and "c \<noteq> []"
      and "Category_getitem (str_upper bi c) = Inl e"
      and "store_ok st"
  shows "list_products bi req st = Inr \<lparr>status = 200, body = Json (PList []), location = None\<rparr>"
proof -
  from \<open>store_ok st\<close> have "\<forall>p \<in> set (rows st). category p \<noteq> None"
    by (simp add: store_ok_def not_null_def)
  then have "filter (\<lambda>p. category p = None) (rows st) = []"
    by (simp add: filter_empty_conv)
  with list_query_category [OF assms(1-3), of bi "rows st"] assms(4)
  show ?thesis by (simp add: list_products_def list_response_def)
qed

theorem unknown_category_lists_nothing_witness:
  "list_products cpython (get_request [(''category'', ''bogus'')]) shelf =
     Inr \<lparr>status = 200, body = Json (PList []), location = None\<rparr>"
  using unknown_category_lists_nothing
    [of "get_request [(''category'', ''bogus'')]" "''bogus''" cpython "KeyError ''BOGUS''" shelf]
  by (simp add: get_request_def cpython_simps ascii_upper_examples Category_getitem_def
      store_ok_shelf)

section \<open>Deleting: \<open>DELETE /products/<id>\<close>\<close>

lemma query_get_after_delete:
  "query_get (session_delete_commit st p) product_id = None" if "id' p = Some product_id"
  using that by (simp add: query_get_def session_delete_commit_def find_None_iff)

lemma query_get_Some: "query_get st product_id = Some p \<Longrightarrow> id' p = Some product_id"
  by (auto simp: query_get_def find_Some_iff)

lemma query_get_None:
  "query_get st product_id = None \<Longrightarrow> filter (\<lambda>r. id' r \<noteq> Some product_id) (rows st) = rows st"
  by (auto simp: query_get_def find_None_iff filter_id_conv)

text \<open>
  Claim C7. For every id, \<open>DELETE\<close> answers 204 with an empty body, whether a product
  has that id or not; afterwards no product has it (\<open>find\<close> returns nothing and \<open>GET\<close>
  answers 404), and the rows left are exactly those with another id.
\<close>

theorem delete_products_always_204:
  "status (fst (delete_products product_id st)) = 204 \<and>
   body (fst (delete_products product_id st)) = Text [] \<and>
   query_get (snd (delete_products product_id st)) product_id = None \<and>
   get_products product_id (snd (delete_products product_id st)) =
     Inl (HTTPException 404 (Product_not_found product_id)) \<and>
   rows (snd (delete_products product_id st)) =
     filter (\<lambda>r. id' r \<noteq> Some product_id) (rows st)"
proof -
  have gone: "query_get (snd (delete_products product_id st)) product_id = None"
    by (auto simp: delete_products_def query_get_after_delete dest: query_get_Some
        split: option.splits)
  have left: "rows (snd (delete_products product_id st)) =
      filter (\<lambda>r. id' r \<noteq> Some product_id) (rows st)"
    by (auto simp: delete_products_def session_delete_commit_def query_get_None
        dest: query_get_Some split: option.splits)
  from gone left show ?thesis
    by (simp add: delete_products_def get_products_def split: option.splits)
qed

theorem delete_products_always_204_witness:
  "delete_products 1 shelf =
     (\<lparr>status = 204, body = Text [], location = None\<rparr>,
      \<lparr>rows = [apple], next_id = 3, engine = plain_engine\<rparr>) \<and>
   delete_products 7 shelf = (\<lparr>status = 204, body = Text [], location = None\<rparr>, shelf) \<and>
   query_get (snd (delete_products 1 shelf)) 1 = None \<and>
   query_get (snd (delete_products 7 shelf)) 7 = None"
  using delete_products_always_204 [of 1 shelf] delete_products_always_204 [of 7 shelf]
  by (simp add: delete_products_def query_get_def session_delete_commit_def shelf_fields shelf_def)

section \<open>Creating and updating: \<open>POST /products\<close>, \<open>PUT /products/<id>\<close>\<close>










lemma id_key_ignored:
  "subscript (PDict ((''id'', v) # d)) ''name'' = subscript (PDict d) ''name''"
  "dict_get (PDict ((''id'', v) # d)) ''description'' dflt = dict_get (PDict d) ''description'' dflt"
  "data_category bi (PDict ((''id'', v) # d)) = data_category bi (PDict d)"
  "dict_get (PDict ((''id'', v) # d)) ''available'' dflt = dict_get (PDict d) ''available'' dflt"
  "data_price bi (PDict ((''id'', v) # d)) = data_price bi (PDict d)"
  by (simp_all add: data_category_def data_price_def)

lemma deserialize_ignores_id:
  "deserialize bi self (PDict ((''id'', v) # d)) = deserialize bi self (PDict d)"
  unfolding deserialize_def deserialize_try_def id_key_ignored ..

lemma create_products_Inr:
  assumes "create_products bi req st = (Inr resp, st')"
  shows "\<exists>p. rows st' = rows st @ [p] \<and> id' p = Some (next_id st) \<and>
           next_id st' = next_id st + 1 \<and> not_null p \<and> Some (next_id st) \<notin> set (ids st) \<and>
           status resp = 201 \<and> location resp = Some (next_id st)"
proof -
  from assms obtain data where d: "get_json req = Inr data"
    by (auto simp: create_products_def split: sum.splits)
  from assms d obtain p where p: "deserialize bi Product data = (p, None)"
    by (auto simp: create_products_def split: sum.splits option.splits prod.splits)
  have idp: "id' p = None" by (rule deserialize_Product_None [OF p])
  from assms d p obtain row where add: "session_add_commit st p = (Inr row, st')"
    by (auto simp: create_products_def split: sum.splits prod.splits)
  with session_add_commit_cases [OF idp, of st] obtain r
    where r: "insert_values (engine st) p = Inr r" "Some (next_id st) \<notin> set (ids st)"
      "row = r\<lparr>id' := Some (next_id st)\<rparr>"
      "st' = st\<lparr>rows := rows st @ [row], next_id := next_id st + 1\<rparr>"
    by auto
  from insert_values_Inr(4) [OF r(1)] r(3) have "not_null row" by (simp add: not_null_def)
  with assms d p add r show ?thesis
    by (auto simp: create_products_def split: sum.splits)
qed

lemma update_products_ids:
  "ids (snd (update_products bi product_id req st)) = ids st"
proof -
  have "ids st' = ids st" if "session_commit st loaded p = (r, st')" for loaded p r st'
    using session_commit_ids [of st loaded p] that by simp
  then show ?thesis
    by (auto simp: update_products_def split: sum.splits option.splits prod.splits)
qed

lemma check_content_type_body:
  "check_content_type ct (req\<lparr>json := b\<rparr>) = check_content_type ct req"
  by (simp add: check_content_type_def)

lemma get_json_body: "get_json (req\<lparr>json := Some data\<rparr>) = Inr data"
  by (simp add: get_json_def)

lemma create_products_example:
  "create_products cpython
     (json_request (PDict [(''id'', PInt 77), (''name'', PStr ''Cap''),
        (''category'', PStr ''cLothing''), (''price'', PInt 5)])) shelf =
   (Inr \<lparr>status = 201,
         body = Json (PDict [(''id'', PInt 3), (''name'', PStr ''Cap''), (''description'', PStr []),
           (''category'', PStr ''Clothing''), (''available'', PBool True), (''price'', PFloat 5)]),
         location = Some 3\<rparr>,
    \<lparr>rows = [hat, apple,
       \<lparr>id' = Some 3, name = PStr ''Cap'', description = PStr [], category = Some CLOTHING,
        available = PBool True, price = Some 5\<rparr>], next_id = 4, engine = plain_engine\<rparr>)"
  by (simp add: create_products_def json_request_def check_content_type_def get_json_def
      deserialize_def deserialize_try_def data_category_def data_price_def Product_def
      cpython_simps ascii_upper_examples Category_getitem_def session_add_commit_def Let_def
      insert_values_def String_column_def Boolean_column_def plain_engine_simps
      not_null_def ids_def shelf_fields serialize_def shelf_def)

text \<open>
  Claim C9. The id is never taken from the client. \<open>deserialize\<close> leaves the id of
  the object as it was, on every input, and an \<open>id\<close> key in the mapping changes nothing
  of what it does. So a \<open>POST\<close> gives the same response and the same table whatever
  \<open>id\<close> the body carries, and the product it stores has the key the table hands out;
  and a \<open>PUT\<close> does the same whatever \<open>id\<close> the body carries and leaves the keys of
  the table as they were.
\<close>

theorem id_is_never_taken_from_the_client:
  "id' (fst (deserialize bi self data)) = id' self \<and>
   deserialize bi self (PDict ((''id'', v) # d)) = deserialize bi self (PDict d) \<and>
   create_products bi (req\<lparr>json := Some (PDict ((''id'', v) # d))\<rparr>) st =
     create_products bi (req\<lparr>json := Some (PDict d)\<rparr>) st \<and>
   (\<forall>resp st'. create_products bi req st = (Inr resp, st') \<longrightarrow>
      (\<exists>p. rows st' = rows st @ [p] \<and> id' p = Some (next_id st))) \<and>
   update_products bi product_id (req\<lparr>json := Some (PDict ((''id'', v) # d))\<rparr>) st =
     update_products bi product_id (req\<lparr>json := Some (PDict d)\<rparr>) st \<and>
   ids (snd (update_products bi product_id req st)) = ids st"
proof (intro conjI allI impI)
  show "id' (fst (deserialize bi self data)) = id' self" by (rule deserialize_id)
  show "deserialize bi self (PDict ((''id'', v) # d)) = deserialize bi self (PDict d)"
    by (rule deserialize_ignores_id)
  show "create_products bi (req\<lparr>json := Some (PDict ((''id'', v) # d))\<rparr>) st =
     create_products bi (req\<lparr>json := Some (PDict d)\<rparr>) st"
    by (cases "check_content_type ''application/json'' req")
      (simp_all add: create_products_def check_content_type_body get_json_body
        deserialize_ignores_id)
  show "update_products bi product_id (req\<lparr>json := Some (PDict ((''id'', v) # d))\<rparr>) st =
     update_products bi product_id (req\<lparr>json := Some (PDict d)\<rparr>) st"
    by (cases "check_content_type ''application/json'' req"; cases "query_get st product_id")
      (simp_all add: update_products_def check_content_type_body get_json_body
        deserialize_ignores_id)
  show "ids (snd (update_products bi product_id req st)) = ids st"
    by (rule update_products_ids)
next
  fix resp st' assume "create_products bi req st = (Inr resp, st')"
  from create_products_Inr [OF this]
  show "\<exists>p. rows st' = rows st @ [p] \<and> id' p = Some (next_id st)" by blast
qed

theorem id_is_never_taken_from_the_client_witness:
  "(\<exists>p. rows (snd (create_products cpython
        (json_request (PDict [(''id'', PInt 77), (''name'', PStr ''Cap''),
           (''category'', PStr ''cLothing''), (''price'', PInt 5)])) shelf)) = rows shelf @ [p] \<and>
      id' p = Some 3) \<and>
   ids (snd (update_products cpython 1
        (json_request (PDict [(''id'', PInt 77), (''name'', PStr ''Cap''),
           (''category'', PStr ''cLothing''), (''price'', PInt 5)])) shelf)) = [Some 1, Some 2]"
  using id_is_never_taken_from_the_client
    [of cpython Product PNone PNone "[]"
      "json_request (PDict [(''id'', PInt 77), (''name'', PStr ''Cap''),
           (''category'', PStr ''cLothing''), (''price'', PInt 5)])" shelf 1]
    create_products_example
  by (simp add: ids_def shelf_fields)

section \<open>The content type of \<open>POST\<close> and \<open>PUT\<close>\<close>

lemma check_content_type_iff:
  "check_content_type ct req = Inr () \<longleftrightarrow> content_type req = Some ct"
  by (simp add: check_content_type_def split: option.splits)

lemma check_content_type_rejects:
  "content_type req \<noteq> Some ct \<Longrightarrow>
     check_content_type ct req = Inl (HTTPException 415 (Content_type_must_be ct))"
  by (simp add: check_content_type_def split: option.splits)

text \<open>
  Claim C10. \<open>check_content_type\<close> passes only a \<open>Content-Type\<close> header that is
  exactly \<open>application/json\<close>. When the header is absent or is any other text,
  \<open>POST /products\<close> and \<open>PUT /products/<id>\<close> abort with 415, whatever the body and
  whatever the table holds (a \<open>PUT\<close> to an id that does not exist included), and the
  table is unchanged.
\<close>

theorem content_type_must_be_exact:
  "(check_content_type ''application/json'' req = Inr () \<longleftrightarrow>
      content_type req = Some ''application/json'') \<and>
   (content_type req \<noteq> Some ''application/json'' \<longrightarrow>
      create_products bi req st =
        (Inl (HTTPException 415 (Content_type_must_be ''application/json'')), st) \<and>
      update_products bi product_id req st =
        (Inl (HTTPException 415 (Content_type_must_be ''application/json'')), st) \<and>
      status (respond (fst (create_products bi req st)) :: 'f response) = 415 \<and>
      status (respond (fst (update_products bi product_id req st)) :: 'f response) = 415)"
  by (simp add: check_content_type_iff check_content_type_rejects create_products_def
      update_products_def respond_def error_json_def)

theorem content_type_must_be_exact_witness:
  "create_products cpython
     \<lparr>content_type = Some ''application/json; charset=utf-8'',
      json = Some (PDict [(''name'', PStr ''Hat''), (''category'', PStr ''Food''), (''price'', PInt 5)]),
      args = []\<rparr>
     \<lparr>rows = [], next_id = 1, engine = plain_engine\<rparr> =
   (Inl (HTTPException 415 (Content_type_must_be ''application/json'')),
    \<lparr>rows = [], next_id = 1, engine = plain_engine\<rparr>) \<and>
   update_products cpython 1
     \<lparr>content_type = Some ''Application/JSON'', json = None, args = []\<rparr>
     \<lparr>rows = [], next_id = 1, engine = plain_engine\<rparr> =
   (Inl (HTTPException 415 (Content_type_must_be ''application/json'')),
    \<lparr>rows = [], next_id = 1, engine = plain_engine\<rparr>)"
  using content_type_must_be_exact
    [of "\<lparr>content_type = Some ''application/json; charset=utf-8'',
      json = Some (PDict [(''name'', PStr ''Hat''), (''category'', PStr ''Food''), (''price'', PInt 5)]),
      args = []\<rparr>" cpython "\<lparr>rows = [], next_id = 1, engine = plain_engine\<rparr>" 1]
    content_type_must_be_exact
    [of "\<lparr>content_type = Some ''Application/JSON'', json = None, args = []\<rparr>"
      cpython "\<lparr>rows = [], next_id = 1, engine = plain_engine\<rparr>" 1]
  by simp

end
